theory Spec2Isabelle
  imports Main "HOL-Library.Word"
begin

section \<open>Data model\<close>

text \<open>
  Go's \<^verbatim>\<open>[]byte\<close> and \<^verbatim>\<open>string\<close> are both sequences of 8-bit characters; HOL's
  \<^typ>\<open>char\<close> is an 8-bit character, so both are modelled as \<^typ>\<open>string\<close>.
\<close>

type_synonym bytes = string

text \<open>
  A Go \<^verbatim>\<open>error\<close>: \<open>Errorf\<close> is an error built by \<^verbatim>\<open>fmt.Errorf\<close> from a plain message,
  \<open>Wrapf\<close> one built with the \<^verbatim>\<open>%w\<close> verb around another error, and \<open>LibError\<close> an error
  handed back by a library or by another package.
\<close>

datatype error = Errorf string | Wrapf string error | LibError string

subsection \<open>Constants of package config (config.go) and of the OCI libraries\<close>

definition ZarfYAML :: string where "ZarfYAML = ''zarf.yaml''"
definition BlobsDir :: string where "BlobsDir = ''blobs/sha256''"
definition BundleYAML :: string where "BundleYAML = ''uds-bundle.yaml''"
definition BundlePrefix :: string where "BundlePrefix = ''uds-bundle-''"
definition BundleYAMLSignature :: string where "BundleYAMLSignature = ''uds-bundle.yaml.sig''"

definition MediaTypeImageManifest :: string where
  "MediaTypeImageManifest = ''application/vnd.oci.image.manifest.v1+json''"
definition MediaTypeImageConfig :: string where
  "MediaTypeImageConfig = ''application/vnd.oci.image.config.v1+json''"
definition MediaTypeImageIndex :: string where
  "MediaTypeImageIndex = ''application/vnd.oci.image.index.v1+json''"
definition ZarfLayerMediaTypeBlob :: string where
  "ZarfLayerMediaTypeBlob = ''application/vnd.zarf.layer.v1.blob''"

definition AnnotationTitle :: string where
  "AnnotationTitle = ''org.opencontainers.image.title''"
definition AnnotationDescription :: string where
  "AnnotationDescription = ''org.opencontainers.image.description''"
definition AnnotationURL :: string where
  "AnnotationURL = ''org.opencontainers.image.url''"
definition AnnotationAuthors :: string where
  "AnnotationAuthors = ''org.opencontainers.image.authors''"
definition AnnotationDocumentation :: string where
  "AnnotationDocumentation = ''org.opencontainers.image.documentation''"
definition AnnotationSource :: string where
  "AnnotationSource = ''org.opencontainers.image.source''"
definition AnnotationVendor :: string where
  "AnnotationVendor = ''org.opencontainers.image.vendor''"

subsection \<open>GetArch (config.go)\<close>

text \<open>
  The globals \<^verbatim>\<open>CLIArch\<close> and \<^verbatim>\<open>runtime.GOARCH\<close> are read by \<^verbatim>\<open>GetArch\<close>; they are
  passed in. \<open>GetArch_loop\<close> is the \<^verbatim>\<open>for _, arch := range priority\<close> loop with its early
  return, followed by the final \<^verbatim>\<open>return runtime.GOARCH\<close>.
\<close>

fun GetArch_loop :: "string list \<Rightarrow> string \<Rightarrow> string" where
  "GetArch_loop [] goarch = goarch"
| "GetArch_loop (arch # rest) goarch = (if arch \<noteq> '''' then arch else GetArch_loop rest goarch)"

definition GetArch :: "string \<Rightarrow> string \<Rightarrow> string list \<Rightarrow> string" where
  "GetArch CLIArch GOARCH archs = (let priority = [CLIArch] @ archs in GetArch_loop priority GOARCH)"

subsection \<open>Digests and descriptors (go-digest, image-spec, oras content)\<close>

text \<open>
  A digest is the pair of an algorithm and its encoded (hex) part; go-digest prints it as
  \<^verbatim>\<open>algorithm:encoded\<close>. The SHA-256 function itself is a parameter of the model (field
  \<open>sha256\<close> of the environment below), returning the 256-bit sum; \<open>hex_encode\<close> is
  \<^verbatim>\<open>hex.EncodeToString\<close> of its 32 bytes, most significant nibble first.
\<close>

record digest =
  Algorithm :: string
  Encoded :: string

definition digest_String :: "digest \<Rightarrow> string" where
  "digest_String d = Algorithm d @ '':'' @ Encoded d"

definition hextable :: string where
  "hextable = ''0123456789abcdef''"

definition hex_encode :: "256 word \<Rightarrow> string" where
  "hex_encode h = map (\<lambda>i. hextable ! ((unat h div 16 ^ (63 - i)) mod 16)) [0..<64]"

record Descriptor =
  MediaType :: string
  Digest :: digest
  Size :: int
  Annotations :: "string \<rightharpoonup> string"

record Manifest =
  SchemaVersion :: int
  ManifestMediaType :: string
  Config :: Descriptor
  Layers :: "Descriptor list"
  ManifestAnnotations :: "string \<rightharpoonup> string"

record Index =
  IndexSchemaVersion :: int
  IndexMediaType :: string
  Manifests :: "Descriptor list"
  IndexAnnotations :: "string \<rightharpoonup> string"

text \<open>\<^verbatim>\<open>oci.ConfigPartial\<close> of the zarf library, the struct marshalled into the config blob.\<close>

record ConfigPartial =
  ConfigArchitecture :: string
  OCIVersion :: string
  ConfigAnnotations :: "string \<rightharpoonup> string"

text \<open>The zero values \<^verbatim>\<open>ocispec.Descriptor{}\<close> and \<^verbatim>\<open>ocispec.Manifest{}\<close>.\<close>

definition zero_Descriptor :: Descriptor where
  "zero_Descriptor =
     \<lparr>MediaType = '''', Digest = \<lparr>Algorithm = '''', Encoded = ''''\<rparr>, Size = 0,
      Annotations = Map.empty\<rparr>"

definition zero_Manifest :: Manifest where
  "zero_Manifest =
     \<lparr>SchemaVersion = 0, ManifestMediaType = '''', Config = zero_Descriptor, Layers = [],
      ManifestAnnotations = Map.empty\<rparr>"

subsection \<open>The bundle (package types: the fields the bundler reads)\<close>

record UDSMetadata =
  Name :: string
  Description :: string
  Version :: string
  URL :: string
  Authors :: string
  Documentation :: string
  Source :: string
  Vendor :: string
  Architecture :: string

record UDSBuildData =
  BuildArchitecture :: string

record BundleZarfPackage =
  PkgName :: string
  Repository :: string
  Ref :: string
  Path :: string

record UDSBundle =
  Metadata :: UDSMetadata
  Build :: UDSBuildData
  ZarfPackages :: "BundleZarfPackage list"

subsection \<open>State: the content store, the destination registry, the call trace\<close>

text \<open>
  \<open>Store\<close> is the directory \<^verbatim>\<open>b.tmp\<close> seen as an OCI image layout: the files under
  \<^verbatim>\<open>blobs/sha256\<close> by their hex digest, and the bytes of \<^verbatim>\<open>index.json\<close>. \<open>Remote\<close> is the
  destination repository of \<^verbatim>\<open>CreateAndPublish\<close>: the tag of its reference, its blobs by hex
  digest and its manifests by reference.
\<close>

record Store =
  blobs :: "string \<rightharpoonup> bytes"
  index_json :: "bytes option"

record Remote =
  Reference :: string
  remote_blobs :: "string \<rightharpoonup> bytes"
  remote_manifests :: "string \<rightharpoonup> (Descriptor \<times> bytes)"

text \<open>
  Every call that leaves the two functions (content store, file system, registry, the
  bundler package) is recorded in a trace, with the arguments it was given.
\<close>

datatype call =
    CallNewWithContext string
  | CallNewRemoteBundler BundleZarfPackage string
  | CallPushManifest BundleZarfPackage string
  | CallPushLayers BundleZarfPackage string nat nat
  | CallMakeTempDir
  | CallExtract string string
  | CallLoad string string
  | CallToBundle string string string
  | CallStorePush Descriptor bytes
  | CallReadFile string
  | CallCreate string
  | CallWrite string bytes
  | CallGetwd
  | CallRemoveAll string
  | CallFilesFromDisk
  | CallArchiveAsync string
  | CallPushLayer Descriptor bytes
  | CallPushReference Descriptor bytes string

record world =
  b_bundle :: UDSBundle
  b_tmp :: string
  store :: Store
  remote :: Remote
  cwd :: string
  files :: "string \<rightharpoonup> bytes"
  calls :: "call list"

definition log_call :: "call \<Rightarrow> world \<Rightarrow> world" where
  "log_call c w = w\<lparr>calls := calls w @ [c]\<rparr>"

subsection \<open>The environment: libraries and the bundler package\<close>

text \<open>
  What the two functions call but do not define is a parameter, so that every theorem holds
  for all behaviours of it:
  \<^item> the serialisers \<^verbatim>\<open>json.Marshal\<close>, \<^verbatim>\<open>json.Unmarshal\<close> and \<^verbatim>\<open>goyaml.Marshal\<close>, SHA-256 and
    \<^verbatim>\<open>filepath.Join\<close>;
  \<^item> \<open>fails\<close>, which decides from the trace so far whether a call that only succeeds or
    fails returns an error;
  \<^item> \<open>NewWithContext\<close>, the opening of the content store, and \<open>oci_tag\<close>, what the store
    does to its index when a manifest is pushed;
  \<^item> the bundler package (\<^verbatim>\<open>src/pkg/bundler\<close>): the remote bundler's \<^verbatim>\<open>PushManifest\<close> and
    \<^verbatim>\<open>PushLayers\<close>, once for a content store and once for a registry as destination, and the
    local bundler's \<^verbatim>\<open>Load\<close> and the mirroring part of its \<^verbatim>\<open>ToBundle\<close>. The type \<open>'zp\<close> is
    the loaded package (\<^verbatim>\<open>zarfTypes.ZarfPackage\<close>);
  \<^item> \<open>ArchiveAsync\<close>, the archive written from a path map.
\<close>

record 'zp env =
  sha256 :: "bytes \<Rightarrow> 256 word"
  json_Marshal_Manifest :: "Manifest \<Rightarrow> error + bytes"
  json_Marshal_Config :: "ConfigPartial \<Rightarrow> error + bytes"
  json_Marshal_Index :: "Index \<Rightarrow> error + bytes"
  json_Unmarshal_Index :: "bytes \<Rightarrow> error + Index"
  goyaml_Marshal :: "UDSBundle \<Rightarrow> error + bytes"
  filepath_Join :: "string list \<Rightarrow> string"
  fails :: "call list \<Rightarrow> call \<Rightarrow> error option"
  NewWithContext :: "string \<Rightarrow> Store \<Rightarrow> error option \<times> Store"
  oci_tag :: "Descriptor \<Rightarrow> Store \<Rightarrow> error option \<times> Store"
  MakeTempDir :: "call list \<Rightarrow> error + string"
  store_PushManifest :: "BundleZarfPackage \<Rightarrow> string \<Rightarrow> Store \<Rightarrow> (error + Descriptor) \<times> Store"
  store_PushLayers ::
    "BundleZarfPackage \<Rightarrow> string \<Rightarrow> nat \<Rightarrow> nat \<Rightarrow> Store \<Rightarrow> (error + Descriptor list) \<times> Store"
  remote_PushManifest :: "BundleZarfPackage \<Rightarrow> string \<Rightarrow> Remote \<Rightarrow> (error + Descriptor) \<times> Remote"
  remote_PushLayers ::
    "BundleZarfPackage \<Rightarrow> string \<Rightarrow> nat \<Rightarrow> nat \<Rightarrow> Remote \<Rightarrow> (error + Descriptor list) \<times> Remote"
  Load :: "string \<Rightarrow> string \<Rightarrow> error + 'zp"
  mirror_blobs ::
    "'zp \<Rightarrow> string \<Rightarrow> string \<Rightarrow> Store \<Rightarrow> (string \<rightharpoonup> string)
       \<Rightarrow> (error + bytes) \<times> Store \<times> (string \<rightharpoonup> string)"
  ArchiveAsync :: "(string \<rightharpoonup> string) \<Rightarrow> Store \<Rightarrow> error + bytes"

section \<open>Library operations\<close>

text \<open>\<^verbatim>\<open>digest.FromBytes\<close> and \<^verbatim>\<open>content.NewDescriptorFromBytes\<close>.\<close>

definition FromBytes :: "'zp env \<Rightarrow> bytes \<Rightarrow> digest" where
  "FromBytes env p = \<lparr>Algorithm = ''sha256'', Encoded = hex_encode (sha256 env p)\<rparr>"

definition NewDescriptorFromBytes :: "'zp env \<Rightarrow> string \<Rightarrow> bytes \<Rightarrow> Descriptor" where
  "NewDescriptorFromBytes env mediaType content =
     \<lparr>MediaType = mediaType, Digest = FromBytes env content, Size = int (length content),
      Annotations = Map.empty\<rparr>"

text \<open>
  The content store's \<^verbatim>\<open>Push\<close> (oras-go, \<^verbatim>\<open>content/oci\<close>): the blob is written under its
  digest; a descriptor whose media type is a manifest type is moreover tagged in the store's
  index, which rewrites \<^verbatim>\<open>index.json\<close> (the entries that \<^verbatim>\<open>Create\<close> discards at the end).
  A push of any other media type leaves the index alone (spec 4.1: \<open>put\<close> only streams the
  bytes into \<^verbatim>\<open>blobs/sha256/<hex>\<close>).
\<close>

definition manifest_media_types :: "string list" where
  "manifest_media_types =
     [''application/vnd.docker.distribution.manifest.v2+json'',
      ''application/vnd.docker.distribution.manifest.list.v2+json'',
      MediaTypeImageManifest,
      MediaTypeImageIndex,
      ''application/vnd.oci.artifact.manifest.v1+json'']"

definition IsManifest :: "Descriptor \<Rightarrow> bool" where
  "IsManifest desc = (MediaType desc \<in> set manifest_media_types)"

definition store_Push :: "'zp env \<Rightarrow> Descriptor \<Rightarrow> bytes \<Rightarrow> world \<Rightarrow> error option \<times> world" where
  "store_Push env expected content w =
     (let c = CallStorePush expected content; w1 = log_call c w in
      case fails env (calls w) c of
        Some err \<Rightarrow> (Some err, w1)
      | None \<Rightarrow>
          (let st = (store w1)\<lparr>blobs := (blobs (store w1))(Encoded (Digest expected) \<mapsto> content)\<rparr> in
           if IsManifest expected
           then (case oci_tag env expected st of (r, st') \<Rightarrow> (r, w1\<lparr>store := st'\<rparr>))
           else (None, w1\<lparr>store := st\<rparr>)))"

definition ocistore_NewWithContext :: "'zp env \<Rightarrow> string \<Rightarrow> world \<Rightarrow> error option \<times> world" where
  "ocistore_NewWithContext env root w =
     (case NewWithContext env root (store w) of
        (r, st) \<Rightarrow> (r, log_call (CallNewWithContext root) (w\<lparr>store := st\<rparr>)))"

text \<open>
  \<^verbatim>\<open>os.ReadFile\<close>, \<^verbatim>\<open>os.Create\<close> and \<^verbatim>\<open>File.Write\<close> on \<^verbatim>\<open>index.json\<close> of the store directory:
  reading a missing file is an error, creating truncates, writing sets the bytes.
\<close>

definition ReadFile_index :: "'zp env \<Rightarrow> string \<Rightarrow> world \<Rightarrow> (error + bytes) \<times> world" where
  "ReadFile_index env name w =
     (let c = CallReadFile name; w1 = log_call c w in
      case fails env (calls w) c of
        Some err \<Rightarrow> (Inl err, w1)
      | None \<Rightarrow>
          (case index_json (store w1) of
             None \<Rightarrow> (Inl (LibError ''no such file or directory''), w1)
           | Some b \<Rightarrow> (Inr b, w1)))"

definition Create_index :: "'zp env \<Rightarrow> string \<Rightarrow> world \<Rightarrow> error option \<times> world" where
  "Create_index env name w =
     (let c = CallCreate name; w1 = log_call c w in
      case fails env (calls w) c of
        Some err \<Rightarrow> (Some err, w1)
      | None \<Rightarrow> (None, w1\<lparr>store := (store w1)\<lparr>index_json := Some []\<rparr>\<rparr>))"

definition Write_index :: "'zp env \<Rightarrow> string \<Rightarrow> bytes \<Rightarrow> world \<Rightarrow> error option \<times> world" where
  "Write_index env name b w =
     (let c = CallWrite name b; w1 = log_call c w in
      case fails env (calls w) c of
        Some err \<Rightarrow> (Some err, w1)
      | None \<Rightarrow> (None, w1\<lparr>store := (store w1)\<lparr>index_json := Some b\<rparr>\<rparr>))"

text \<open>
  \<^verbatim>\<open>OrasRemote.PushLayer\<close> (zarf, \<^verbatim>\<open>pkg/oci\<close>): the descriptor is computed from the bytes
  and the blob is pushed to the repository. \<^verbatim>\<open>PushReference\<close> uploads a manifest under a tag.
\<close>

definition PushLayer :: "'zp env \<Rightarrow> bytes \<Rightarrow> string \<Rightarrow> world \<Rightarrow> (error + Descriptor) \<times> world" where
  "PushLayer env b mediaType w =
     (let desc = NewDescriptorFromBytes env mediaType b;
          c = CallPushLayer desc b; w1 = log_call c w in
      case fails env (calls w) c of
        Some err \<Rightarrow> (Inl err, w1)
      | None \<Rightarrow>
          (Inr desc,
           w1\<lparr>remote := (remote w1)\<lparr>remote_blobs :=
                 (remote_blobs (remote w1))(Encoded (Digest desc) \<mapsto> b)\<rparr>\<rparr>))"

definition PushReference ::
  "'zp env \<Rightarrow> Descriptor \<Rightarrow> bytes \<Rightarrow> string \<Rightarrow> world \<Rightarrow> error option \<times> world" where
  "PushReference env expected content reference w =
     (let c = CallPushReference expected content reference; w1 = log_call c w in
      case fails env (calls w) c of
        Some err \<Rightarrow> (Some err, w1)
      | None \<Rightarrow>
          (None,
           w1\<lparr>remote := (remote w1)\<lparr>remote_manifests :=
                 (remote_manifests (remote w1))(reference \<mapsto> (expected, content))\<rparr>\<rparr>))"

section \<open>The bundler package, as called by Create and CreateAndPublish\<close>

definition NewRemoteBundler ::
  "'zp env \<Rightarrow> BundleZarfPackage \<Rightarrow> string \<Rightarrow> world \<Rightarrow> error option \<times> world" where
  "NewRemoteBundler env pkg url w =
     (let c = CallNewRemoteBundler pkg url in (fails env (calls w) c, log_call c w))"

definition PushManifest_store ::
  "'zp env \<Rightarrow> BundleZarfPackage \<Rightarrow> string \<Rightarrow> world \<Rightarrow> (error + Descriptor) \<times> world" where
  "PushManifest_store env pkg url w =
     (case store_PushManifest env pkg url (store w) of
        (r, st) \<Rightarrow> (r, log_call (CallPushManifest pkg url) (w\<lparr>store := st\<rparr>)))"

definition PushLayers_store ::
  "'zp env \<Rightarrow> BundleZarfPackage \<Rightarrow> string \<Rightarrow> nat \<Rightarrow> nat \<Rightarrow> world
     \<Rightarrow> (error + Descriptor list) \<times> world" where
  "PushLayers_store env pkg url i n w =
     (case store_PushLayers env pkg url i n (store w) of
        (r, st) \<Rightarrow> (r, log_call (CallPushLayers pkg url i n) (w\<lparr>store := st\<rparr>)))"

definition PushManifest_remote ::
  "'zp env \<Rightarrow> BundleZarfPackage \<Rightarrow> string \<Rightarrow> world \<Rightarrow> (error + Descriptor) \<times> world" where
  "PushManifest_remote env pkg url w =
     (case remote_PushManifest env pkg url (remote w) of
        (r, rm) \<Rightarrow> (r, log_call (CallPushManifest pkg url) (w\<lparr>remote := rm\<rparr>)))"

definition PushLayers_remote ::
  "'zp env \<Rightarrow> BundleZarfPackage \<Rightarrow> string \<Rightarrow> nat \<Rightarrow> nat \<Rightarrow> world
     \<Rightarrow> (error + Descriptor list) \<times> world" where
  "PushLayers_remote env pkg url i n w =
     (case remote_PushLayers env pkg url i n (remote w) of
        (r, rm) \<Rightarrow> (r, log_call (CallPushLayers pkg url i n) (w\<lparr>remote := rm\<rparr>)))"

definition utils_MakeTempDir :: "'zp env \<Rightarrow> world \<Rightarrow> (error + string) \<times> world" where
  "utils_MakeTempDir env w = (MakeTempDir env (calls w), log_call CallMakeTempDir w)"

definition Extract :: "'zp env \<Rightarrow> string \<Rightarrow> string \<Rightarrow> world \<Rightarrow> error option \<times> world" where
  "Extract env path pkgTmp w =
     (let c = CallExtract path pkgTmp in (fails env (calls w) c, log_call c w))"

definition Load_package :: "'zp env \<Rightarrow> string \<Rightarrow> string \<Rightarrow> world \<Rightarrow> (error + 'zp) \<times> world" where
  "Load_package env path pkgTmp w = (Load env path pkgTmp, log_call (CallLoad path pkgTmp) w)"

text \<open>\<^verbatim>\<open>artifactPathMap[filepath.Join(b.tmp, config.BlobsDir, digest)] = filepath.Join(config.BlobsDir, digest)\<close>\<close>

definition add_blob_path ::
  "'zp env \<Rightarrow> string \<Rightarrow> string \<Rightarrow> (string \<rightharpoonup> string) \<Rightarrow> (string \<rightharpoonup> string)" where
  "add_blob_path env tmp digest artifactPathMap =
     artifactPathMap(filepath_Join env [tmp, BlobsDir, digest] \<mapsto> filepath_Join env [BlobsDir, digest])"

text \<open>
  Modelled from the spec: \<^verbatim>\<open>LocalBundler.ToBundle\<close> (package bundler) is not among the
  sources. Spec 4.3, step 3: every blob file of the scratch directory is put into the shared
  store, the child's manifest is rewritten to the target media type and annotations, the
  rewritten manifest is pushed into the store, every resulting path is appended to the shared
  path map, and the descriptor of the rewritten manifest is returned. The first part (the
  blobs and the rewriting, giving the bytes of the rewritten manifest) is the parameter
  \<open>mirror_blobs\<close>.
\<close>

definition ToBundle ::
  "'zp env \<Rightarrow> string \<Rightarrow> 'zp \<Rightarrow> (string \<rightharpoonup> string) \<Rightarrow> string \<Rightarrow> string \<Rightarrow> world
     \<Rightarrow> (error + Descriptor) \<times> (string \<rightharpoonup> string) \<times> world" where
  "ToBundle env path pkg artifactPathMap bundleTmpDir packageTmpDir w =
     (case mirror_blobs env pkg bundleTmpDir packageTmpDir (store w) artifactPathMap of
        (r, st, pathMap1) \<Rightarrow>
          (let w1 = log_call (CallToBundle path bundleTmpDir packageTmpDir) (w\<lparr>store := st\<rparr>) in
           case r of
             Inl err \<Rightarrow> (Inl err, pathMap1, w1)
           | Inr manifestBytes \<Rightarrow>
               (let manifestDesc = NewDescriptorFromBytes env MediaTypeImageManifest manifestBytes in
                case store_Push env manifestDesc manifestBytes w1 of
                  (Some err, w2) \<Rightarrow> (Inl err, pathMap1, w2)
                | (None, w2) \<Rightarrow>
                    (Inr manifestDesc,
                     add_blob_path env bundleTmpDir (Encoded (Digest manifestDesc)) pathMap1, w2))))"

section \<open>Package bundle: the helpers of Create and CreateAndPublish\<close>

text \<open>
  Calls to the message package (headers, debug lines, spinners, progress bars) print only and
  are left out, as are the deferred clean-ups of scratch directories and file handles: the
  scratch directories are not part of the state.
\<close>

definition manifestAnnotationsFromMetadata :: "UDSMetadata \<Rightarrow> (string \<rightharpoonup> string)" where
  "manifestAnnotationsFromMetadata metadata =
     (let annotations = [AnnotationDescription \<mapsto> Description metadata];
          annotations = (if URL metadata \<noteq> ''''
                         then annotations(AnnotationURL \<mapsto> URL metadata) else annotations);
          annotations = (if Authors metadata \<noteq> ''''
                         then annotations(AnnotationAuthors \<mapsto> Authors metadata) else annotations);
          annotations = (if Documentation metadata \<noteq> ''''
                         then annotations(AnnotationDocumentation \<mapsto> Documentation metadata)
                         else annotations);
          annotations = (if Source metadata \<noteq> ''''
                         then annotations(AnnotationSource \<mapsto> Source metadata) else annotations);
          annotations = (if Vendor metadata \<noteq> ''''
                         then annotations(AnnotationVendor \<mapsto> Vendor metadata) else annotations)
      in annotations)"

definition manifestConfig :: "UDSMetadata \<Rightarrow> UDSBuildData \<Rightarrow> ConfigPartial" where
  "manifestConfig metadata build =
     (let annotations = [AnnotationTitle \<mapsto> Name metadata,
                         AnnotationDescription \<mapsto> Description metadata]
      in \<lparr>ConfigArchitecture = BuildArchitecture build, OCIVersion = ''1.0.1'',
          ConfigAnnotations = annotations\<rparr>)"

definition createManifestConfig ::
  "'zp env \<Rightarrow> UDSMetadata \<Rightarrow> UDSBuildData \<Rightarrow> error + Descriptor" where
  "createManifestConfig env metadata build =
     (case json_Marshal_Config env (manifestConfig metadata build) of
        Inl err \<Rightarrow> Inl err
      | Inr manifestConfigBytes \<Rightarrow>
          Inr (NewDescriptorFromBytes env MediaTypeImageManifest manifestConfigBytes))"

definition pushManifestConfigFromMetadata ::
  "'zp env \<Rightarrow> UDSMetadata \<Rightarrow> UDSBuildData \<Rightarrow> world \<Rightarrow> (error + Descriptor) \<times> world" where
  "pushManifestConfigFromMetadata env metadata build w =
     (case json_Marshal_Config env (manifestConfig metadata build) of
        Inl err \<Rightarrow> (Inl err, w)
      | Inr manifestConfigBytes \<Rightarrow> PushLayer env manifestConfigBytes MediaTypeImageConfig w)"

definition pushBundleManifestToStore ::
  "'zp env \<Rightarrow> UDSBundle \<Rightarrow> world \<Rightarrow> (error + Descriptor) \<times> world" where
  "pushBundleManifestToStore env bundle w =
     (case goyaml_Marshal env bundle of
        Inl err \<Rightarrow> (Inl err, w)
      | Inr bundleManifestBytes \<Rightarrow>
          (let bundleYamlDesc =
                 (NewDescriptorFromBytes env ZarfLayerMediaTypeBlob bundleManifestBytes)
                   \<lparr>Annotations := [AnnotationTitle \<mapsto> BundleYAML]\<rparr> in
           case store_Push env bundleYamlDesc bundleManifestBytes w of
             (Some err, w1) \<Rightarrow> (Inl err, w1)
           | (None, w1) \<Rightarrow> (Inr bundleYamlDesc, w1)))"

definition pushBundleSignature :: "'zp env \<Rightarrow> bytes \<Rightarrow> world \<Rightarrow> (error + Descriptor) \<times> world" where
  "pushBundleSignature env signature w =
     (let signatureDesc = NewDescriptorFromBytes env ZarfLayerMediaTypeBlob signature in
      case store_Push env signatureDesc signature w of
        (Some err, w1) \<Rightarrow> (Inl err, w1)
      | (None, w1) \<Rightarrow>
          (Inr (signatureDesc\<lparr>Annotations := [AnnotationTitle \<mapsto> BundleYAMLSignature]\<rparr>), w1))"

text \<open>
  \<^verbatim>\<open>writeTarball\<close>: the file name, the working directory, the removal and creation of the
  destination file, the listing of the files of the path map, and the archive. The job
  channel, the archival task and the collector loop of the source produce one archive or one
  error; they are the single step \<open>ArchiveAsync\<close>.
\<close>

definition writeTarball ::
  "'zp env \<Rightarrow> UDSBundle \<Rightarrow> (string \<rightharpoonup> string) \<Rightarrow> world \<Rightarrow> error option \<times> world" where
  "writeTarball env bundle artifactPathMap w =
     (let filename = BundlePrefix @ Name (Metadata bundle) @ ''-'' @ Architecture (Metadata bundle)
                       @ ''-'' @ Version (Metadata bundle) @ ''.tar.zst'';
          w1 = log_call CallGetwd w in
      case fails env (calls w) CallGetwd of
        Some err \<Rightarrow> (Some err, w1)
      | None \<Rightarrow>
          (let dst = filepath_Join env [cwd w1, filename];
               w2 = log_call (CallRemoveAll dst) (w1\<lparr>files := (files w1)(dst := None)\<rparr>);
               w3 = log_call (CallCreate dst) w2 in
           case fails env (calls w2) (CallCreate dst) of
             Some err \<Rightarrow> (Some err, w3)
           | None \<Rightarrow>
               (let w4 = w3\<lparr>files := (files w3)(dst \<mapsto> [])\<rparr>;
                    w5 = log_call CallFilesFromDisk w4 in
                case fails env (calls w4) CallFilesFromDisk of
                  Some err \<Rightarrow> (Some err, w5)
                | None \<Rightarrow>
                    (let w6 = log_call (CallArchiveAsync dst) w5 in
                     case ArchiveAsync env artifactPathMap (store w5) of
                       Inl err \<Rightarrow> (Some err, w6)
                     | Inr archive \<Rightarrow> (None, w6\<lparr>files := (files w6)(dst \<mapsto> archive)\<rparr>)))))"

section \<open>Create\<close>

text \<open>The local variables of \<^verbatim>\<open>Create\<close> that the loop over the packages updates.\<close>

record create_locals =
  rootManifest :: Manifest
  artifactPathMap :: "string \<rightharpoonup> string"

definition append_layer :: "Descriptor \<Rightarrow> Manifest \<Rightarrow> Manifest" where
  "append_layer desc m = m\<lparr>Layers := Layers m @ [desc]\<rparr>"

text \<open>The branch \<^verbatim>\<open>if pkg.Repository != ""\<close> of the loop body.\<close>

definition Create_remote ::
  "'zp env \<Rightarrow> nat \<Rightarrow> BundleZarfPackage \<Rightarrow> create_locals \<Rightarrow> world
     \<Rightarrow> (error + create_locals) \<times> world" where
  "Create_remote env i pkg loc w =
     (let url = Repository pkg @ '':'' @ Ref pkg in
      case NewRemoteBundler env pkg url w of
        (Some err, w1) \<Rightarrow> (Inl err, w1)
      | (None, w1) \<Rightarrow>
          (case PushManifest_store env pkg url w1 of
             (Inl err, w2) \<Rightarrow> (Inl err, w2)
           | (Inr pkgManifestDesc, w2) \<Rightarrow>
               (let m = append_layer pkgManifestDesc (rootManifest loc);
                    pm = add_blob_path env (b_tmp w2) (Encoded (Digest pkgManifestDesc))
                           (artifactPathMap loc) in
                case PushLayers_store env pkg url (i + 1) (length (ZarfPackages (b_bundle w2))) w2 of
                  (Inl err, w3) \<Rightarrow> (Inl err, w3)
                | (Inr layerDescs, w3) \<Rightarrow>
                    (Inr \<lparr>rootManifest = m,
                          artifactPathMap =
                            foldl (\<lambda>pm layerDesc.
                                     add_blob_path env (b_tmp w3) (Encoded (Digest layerDesc)) pm)
                              pm layerDescs\<rparr>,
                     w3))))"

text \<open>
  The branch \<^verbatim>\<open>else if pkg.Path != ""\<close>. \<^verbatim>\<open>NewLocalBundler\<close> returns no error (the test after
  it reads the \<^verbatim>\<open>err\<close> of \<^verbatim>\<open>MakeTempDir\<close>, which is nil there). The assignment to
  \<^verbatim>\<open>bundle.ZarfPackages[i].Ref\<close> writes through the pointer \<^verbatim>\<open>&b.bundle\<close>.
\<close>

definition Create_local ::
  "'zp env \<Rightarrow> nat \<Rightarrow> BundleZarfPackage \<Rightarrow> create_locals \<Rightarrow> world
     \<Rightarrow> (error + create_locals) \<times> world" where
  "Create_local env i pkg loc w =
     (case utils_MakeTempDir env w of
        (Inl err, w1) \<Rightarrow> (Inl err, w1)
      | (Inr pkgTmp, w1) \<Rightarrow>
          (case Extract env (Path pkg) pkgTmp w1 of
             (Some err, w2) \<Rightarrow> (Inl err, w2)
           | (None, w2) \<Rightarrow>
               (case Load_package env (Path pkg) pkgTmp w2 of
                  (Inl err, w3) \<Rightarrow> (Inl err, w3)
                | (Inr zarfPkg, w3) \<Rightarrow>
                    (case ToBundle env (Path pkg) zarfPkg (artifactPathMap loc) (b_tmp w3) pkgTmp w3 of
                       (Inl err, pm, w4) \<Rightarrow> (Inl err, w4)
                     | (Inr zarfPkgDesc, pm, w4) \<Rightarrow>
                         (let bundle = b_bundle w4;
                              pkgs = ZarfPackages bundle;
                              ref = Ref (pkgs ! i) @ ''-'' @ Architecture (Metadata bundle)
                                      @ ''@sha256:'' @ Encoded (Digest zarfPkgDesc);
                              w5 = w4\<lparr>b_bundle :=
                                        bundle\<lparr>ZarfPackages := pkgs[i := (pkgs ! i)\<lparr>Ref := ref\<rparr>]\<rparr>\<rparr>
                          in (Inr \<lparr>rootManifest = append_layer zarfPkgDesc (rootManifest loc),
                                   artifactPathMap =
                                     add_blob_path env (b_tmp w5) (Encoded (Digest zarfPkgDesc)) pm\<rparr>,
                              w5))))))"

text \<open>
  One iteration of \<^verbatim>\<open>for i, pkg := range bundle.ZarfPackages\<close>: \<open>pkg\<close> is the element at
  index \<open>i\<close>, which no earlier iteration has written.
\<close>

definition Create_package ::
  "'zp env \<Rightarrow> nat \<Rightarrow> create_locals \<Rightarrow> world \<Rightarrow> (error + create_locals) \<times> world" where
  "Create_package env i loc w =
     (let pkg = ZarfPackages (b_bundle w) ! i in
      if Repository pkg \<noteq> '''' then Create_remote env i pkg loc w
      else if Path pkg \<noteq> '''' then Create_local env i pkg loc w
      else (Inl (Errorf ''todo: haven't we already validated that Path or Repository is valid''), w))"

fun Create_packages ::
  "'zp env \<Rightarrow> nat list \<Rightarrow> create_locals \<Rightarrow> world \<Rightarrow> (error + create_locals) \<times> world" where
  "Create_packages env [] loc w = (Inr loc, w)"
| "Create_packages env (i # rest) loc w =
     (case Create_package env i loc w of
        (Inl err, w1) \<Rightarrow> (Inl err, w1)
      | (Inr loc1, w1) \<Rightarrow> Create_packages env rest loc1 w1)"

text \<open>
  From \<^verbatim>\<open>pushBundleManifestToStore\<close> to the push of the root manifest. The result is the
  descriptor of the root manifest and the locals.
\<close>

definition Create_build ::
  "'zp env \<Rightarrow> create_locals \<Rightarrow> world \<Rightarrow> (error + Descriptor \<times> create_locals) \<times> world" where
  "Create_build env loc w =
     (let bundle = b_bundle w in
      case pushBundleManifestToStore env bundle w of
        (Inl err, w1) \<Rightarrow> (Inl err, w1)
      | (Inr bundleManifestDesc, w1) \<Rightarrow>
          (let m1 = append_layer bundleManifestDesc (rootManifest loc);
               pm1 = add_blob_path env (b_tmp w1) (Encoded (Digest bundleManifestDesc))
                       (artifactPathMap loc) in
           case createManifestConfig env (Metadata bundle) (Build bundle) of
             Inl err \<Rightarrow> (Inl err, w1)
           | Inr manifestConfigDesc \<Rightarrow>
               (let m2 = m1\<lparr>Config := manifestConfigDesc, SchemaVersion := 2,
                            ManifestAnnotations := manifestAnnotationsFromMetadata (Metadata bundle)\<rparr> in
                case json_Marshal_Manifest env m2 of
                  Inl err \<Rightarrow> (Inl err, w1)
                | Inr manifestBytes \<Rightarrow>
                    (let manifestDesc =
                           NewDescriptorFromBytes env MediaTypeImageManifest manifestBytes in
                     case store_Push env manifestDesc manifestBytes w1 of
                       (Some err, w2) \<Rightarrow> (Inl err, w2)
                     | (None, w2) \<Rightarrow>
                         (Inr (manifestDesc,
                               \<lparr>rootManifest = m2,
                                artifactPathMap =
                                  add_blob_path env (b_tmp w2) (Encoded (Digest manifestDesc)) pm1\<rparr>),
                          w2)))))"

text \<open>The block \<^verbatim>\<open>// rebuild index.json\<close>, up to the path-map entry for \<^verbatim>\<open>oci-layout\<close>.\<close>

definition Create_rebuild_index ::
  "'zp env \<Rightarrow> Descriptor \<Rightarrow> create_locals \<Rightarrow> world \<Rightarrow> (error + create_locals) \<times> world" where
  "Create_rebuild_index env manifestDesc loc w =
     (let indexPath = filepath_Join env [b_tmp w, ''index.json''] in
      case ReadFile_index env indexPath w of
        (Inl err, w1) \<Rightarrow> (Inl err, w1)
      | (Inr indexBytes, w1) \<Rightarrow>
          (case json_Unmarshal_Index env indexBytes of
             Inl err \<Rightarrow> (Inl err, w1)
           | Inr index \<Rightarrow>
               (case json_Marshal_Index env (index\<lparr>Manifests := [manifestDesc]\<rparr>) of
                  Inl err \<Rightarrow> (Inl err, w1)
                | Inr bundleIndexBytes \<Rightarrow>
                    (case Create_index env indexPath w1 of
                       (Some err, w2) \<Rightarrow> (Inl err, w2)
                     | (None, w2) \<Rightarrow>
                         (case Write_index env indexPath bundleIndexBytes w2 of
                            (Some err, w3) \<Rightarrow> (Inl err, w3)
                          | (None, w3) \<Rightarrow>
                              (Inr (loc\<lparr>artifactPathMap :=
                                      (artifactPathMap loc)
                                        (indexPath \<mapsto> ''index.json'',
                                         filepath_Join env [b_tmp w3, ''oci-layout''] \<mapsto> ''oci-layout'')\<rparr>),
                               w3))))))"

text \<open>The block \<^verbatim>\<open>// push the bundle's signature\<close>.\<close>

definition Create_signature ::
  "'zp env \<Rightarrow> bytes \<Rightarrow> create_locals \<Rightarrow> world \<Rightarrow> (error + create_locals) \<times> world" where
  "Create_signature env signature loc w =
     (if length signature > 0
      then (case pushBundleSignature env signature w of
              (Inl err, w1) \<Rightarrow> (Inl err, w1)
            | (Inr signatureDesc, w1) \<Rightarrow>
                (Inr (loc\<lparr>rootManifest := append_layer signatureDesc (rootManifest loc)\<rparr>), w1))
      else (Inr loc, w))"

definition Create :: "'zp env \<Rightarrow> bytes \<Rightarrow> world \<Rightarrow> error option \<times> world" where
  "Create env signature w =
     (if Architecture (Metadata (b_bundle w)) = ''''
      then (Some (Errorf ''architecture is required for bundling''), w)
      else
        (case ocistore_NewWithContext env (b_tmp w) w of
           (Some err, w1) \<Rightarrow> (Some err, w1)
         | (None, w1) \<Rightarrow>
             (let loc0 = \<lparr>rootManifest = zero_Manifest\<lparr>ManifestMediaType := MediaTypeImageManifest\<rparr>,
                          artifactPathMap = Map.empty\<rparr> in
              case Create_packages env [0..<length (ZarfPackages (b_bundle w1))] loc0 w1 of
                (Inl err, w2) \<Rightarrow> (Some err, w2)
              | (Inr loc1, w2) \<Rightarrow>
                  (case Create_build env loc1 w2 of
                     (Inl err, w3) \<Rightarrow> (Some err, w3)
                   | (Inr (manifestDesc, loc2), w3) \<Rightarrow>
                       (case Create_rebuild_index env manifestDesc loc2 w3 of
                          (Inl err, w4) \<Rightarrow> (Some err, w4)
                        | (Inr loc3, w4) \<Rightarrow>
                            (case Create_signature env signature loc3 w4 of
                               (Inl err, w5) \<Rightarrow> (Some err, w5)
                             | (Inr loc4, w5) \<Rightarrow>
                                 writeTarball env (b_bundle w5) (artifactPathMap loc4) w5))))))"

section \<open>CreateAndPublish\<close>

text \<open>
  One iteration of the loop of \<^verbatim>\<open>CreateAndPublish\<close>; the only local variable it updates is
  \<^verbatim>\<open>rootManifest\<close>. The bundle is read and never written.
\<close>

definition Publish_package ::
  "'zp env \<Rightarrow> UDSBundle \<Rightarrow> nat \<Rightarrow> Manifest \<Rightarrow> world \<Rightarrow> (error + Manifest) \<times> world" where
  "Publish_package env bundle i m w =
     (let pkg = ZarfPackages bundle ! i;
          url = Repository pkg @ '':'' @ Ref pkg in
      case NewRemoteBundler env pkg url w of
        (Some err, w1) \<Rightarrow> (Inl err, w1)
      | (None, w1) \<Rightarrow>
          (case PushManifest_remote env pkg url w1 of
             (Inl err, w2) \<Rightarrow> (Inl err, w2)
           | (Inr zarfManifestDesc, w2) \<Rightarrow>
               (let zarfManifestDesc = zarfManifestDesc\<lparr>MediaType := MediaTypeImageManifest\<rparr>;
                    m1 = append_layer zarfManifestDesc m in
                case PushLayers_remote env pkg url (i + 1) (length (ZarfPackages bundle)) w2 of
                  (Inl err, w3) \<Rightarrow> (Inl err, w3)
                | (Inr _, w3) \<Rightarrow> (Inr m1, w3))))"

fun Publish_packages ::
  "'zp env \<Rightarrow> UDSBundle \<Rightarrow> nat list \<Rightarrow> Manifest \<Rightarrow> world \<Rightarrow> (error + Manifest) \<times> world" where
  "Publish_packages env bundle [] m w = (Inr m, w)"
| "Publish_packages env bundle (i # rest) m w =
     (case Publish_package env bundle i m w of
        (Inl err, w1) \<Rightarrow> (Inl err, w1)
      | (Inr m1, w1) \<Rightarrow> Publish_packages env bundle rest m1 w1)"

text \<open>From \<^verbatim>\<open>// push the bundle's metadata\<close> to the end of the signature block.\<close>

definition Publish_metadata ::
  "'zp env \<Rightarrow> UDSBundle \<Rightarrow> bytes \<Rightarrow> Manifest \<Rightarrow> world \<Rightarrow> (error + Manifest) \<times> world" where
  "Publish_metadata env bundle signature m w =
     (case goyaml_Marshal env bundle of
        Inl err \<Rightarrow> (Inl err, w)
      | Inr bundleYamlBytes \<Rightarrow>
          (case PushLayer env bundleYamlBytes ZarfLayerMediaTypeBlob w of
             (Inl err, w1) \<Rightarrow> (Inl err, w1)
           | (Inr bundleYamlDesc, w1) \<Rightarrow>
               (let bundleYamlDesc = bundleYamlDesc\<lparr>Annotations := [AnnotationTitle \<mapsto> BundleYAML]\<rparr>;
                    m1 = append_layer bundleYamlDesc m in
                if length signature > 0
                then (case PushLayer env signature ZarfLayerMediaTypeBlob w1 of
                        (Inl err, w2) \<Rightarrow> (Inl err, w2)
                      | (Inr bundleYamlSigDesc, w2) \<Rightarrow>
                          (let bundleYamlSigDesc =
                                 bundleYamlSigDesc\<lparr>Annotations := [AnnotationTitle \<mapsto> BundleYAMLSignature]\<rparr>
                           in (Inr (append_layer bundleYamlSigDesc m1), w2)))
                else (Inr m1, w1))))"

definition CreateAndPublish :: "'zp env \<Rightarrow> UDSBundle \<Rightarrow> bytes \<Rightarrow> world \<Rightarrow> error option \<times> world" where
  "CreateAndPublish env bundle signature w =
     (if Architecture (Metadata bundle) = ''''
      then (Some (Errorf ''architecture is required for bundling''), w)
      else
        (let dstRef = Reference (remote w) in
         case Publish_packages env bundle [0..<length (ZarfPackages bundle)] zero_Manifest w of
           (Inl err, w1) \<Rightarrow> (Some err, w1)
         | (Inr m1, w1) \<Rightarrow>
             (case Publish_metadata env bundle signature m1 w1 of
                (Inl err, w2) \<Rightarrow> (Some err, w2)
              | (Inr m2, w2) \<Rightarrow>
                  (case pushManifestConfigFromMetadata env (Metadata bundle) (Build bundle) w2 of
                     (Inl err, w3) \<Rightarrow> (Some err, w3)
                   | (Inr configDesc, w3) \<Rightarrow>
                       (let m3 = m2\<lparr>Config := configDesc, SchemaVersion := 2,
                                    ManifestAnnotations :=
                                      manifestAnnotationsFromMetadata (Metadata bundle)\<rparr> in
                        case json_Marshal_Manifest env m3 of
                          Inl err \<Rightarrow> (Some err, w3)
                        | Inr b \<Rightarrow>
                            (let expected = NewDescriptorFromBytes env MediaTypeImageManifest b in
                             case PushReference env expected b dstRef w3 of
                               (Some err, w4) \<Rightarrow> (Some (Wrapf ''failed to push manifest: '' err), w4)
                             | (None, w4) \<Rightarrow> (None, w4)))))))"

section \<open>GetArch returns the first override that is set\<close>

lemma GetArch_loop_all_empty:
  "\<forall>a \<in> set ps. a = '''' \<Longrightarrow> GetArch_loop ps g = g"
  by (induction ps) auto

lemma GetArch_loop_first:
  "i < length ps \<Longrightarrow> ps ! i \<noteq> '''' \<Longrightarrow> \<forall>j < i. ps ! j = '''' \<Longrightarrow> GetArch_loop ps g = ps ! i"
proof (induction ps arbitrary: i)
  case Nil
  then show ?case by simp
next
  case (Cons p ps)
  show ?case
  proof (cases i)
    case 0
    with Cons.prems show ?thesis by simp
  next
    case (Suc k)
    from Cons.prems(3) Suc have hd_empty: "p = ''''" by auto
    have "\<forall>j < k. ps ! j = ''''"
    proof (intro allI impI)
      fix j assume "j < k"
      then have "Suc j < i" using Suc by simp
      with Cons.prems(3) have "(p # ps) ! Suc j = ''''" by blast
      then show "ps ! j = ''''" by simp
    qed
    with Cons.IH [of k] Cons.prems Suc have "GetArch_loop ps g = ps ! k" by simp
    with hd_empty Suc show ?thesis by simp
  qed
qed

lemma first_nonempty_exists:
  "\<exists>a \<in> set ps. a \<noteq> '''' \<Longrightarrow> \<exists>i < length ps. ps ! i \<noteq> '''' \<and> (\<forall>j < i. ps ! j = '''')"
proof (induction ps)
  case Nil
  then show ?case by simp
next
  case (Cons p ps)
  show ?case
  proof (cases "p = ''''")
    case False
    then have "0 < length (p # ps) \<and> (p # ps) ! 0 \<noteq> '''' \<and> (\<forall>j < 0. (p # ps) ! j = '''')" by simp
    then show ?thesis by blast
  next
    case True
    with Cons.prems have "\<exists>a \<in> set ps. a \<noteq> ''''" by auto
    from Cons.IH [OF this] obtain i where
      i: "i < length ps" "ps ! i \<noteq> ''''" "\<forall>j < i. ps ! j = ''''" by blast
    have "\<forall>j < Suc i. (p # ps) ! j = ''''"
    proof (intro allI impI)
      fix j assume "j < Suc i"
      then show "(p # ps) ! j = ''''" using True i(3) by (cases j) auto
    qed
    with i(1,2) have "Suc i < length (p # ps) \<and> (p # ps) ! Suc i \<noteq> '''' \<and> (\<forall>j < Suc i. (p # ps) ! j = '''')"
      by simp
    then show ?thesis by blast
  qed
qed

text \<open>
  Claim C10. \<open>GetArch\<close> returns the first non-empty string of the priority list, which is the
  global \<open>CLIArch\<close> followed by the arguments in order: the entry at the least position whose
  string is not empty. If every entry is empty it returns \<open>runtime.GOARCH\<close>.
\<close>

theorem GetArch_first_nonempty:
  "(\<exists>i < length (CLIArch # archs).
      (CLIArch # archs) ! i \<noteq> '''' \<and>
      (\<forall>j < i. (CLIArch # archs) ! j = '''') \<and>
      GetArch CLIArch GOARCH archs = (CLIArch # archs) ! i)
   \<or> ((\<forall>a \<in> set (CLIArch # archs). a = '''') \<and> GetArch CLIArch GOARCH archs = GOARCH)"
proof (cases "\<exists>a \<in> set (CLIArch # archs). a \<noteq> ''''")
  case True
  from first_nonempty_exists [OF True] obtain i where
    i: "i < length (CLIArch # archs)" "(CLIArch # archs) ! i \<noteq> ''''"
       "\<forall>j < i. (CLIArch # archs) ! j = ''''" by blast
  have "GetArch CLIArch GOARCH archs = (CLIArch # archs) ! i"
    unfolding GetArch_def Let_def using GetArch_loop_first [OF i] by simp
  with i show ?thesis by blast
next
  case False
  then have all: "\<forall>a \<in> set (CLIArch # archs). a = ''''" by blast
  have "GetArch CLIArch GOARCH archs = GOARCH"
    unfolding GetArch_def Let_def using GetArch_loop_all_empty [OF all] by simp
  with all show ?thesis by blast
qed

theorem GetArch_first_nonempty_witness:
  "GetArch '''' ''amd64'' ['''', ''arm64'', ''riscv64''] = ''arm64''
   \<and> GetArch '''' ''amd64'' ['''', ''''] = ''amd64''
   \<and> GetArch ''s390x'' ''amd64'' [''arm64''] = ''s390x''"
proof -
  have a: "GetArch '''' ''amd64'' ['''', ''arm64'', ''riscv64''] = ''arm64''"
    using GetArch_first_nonempty [of "''''" "['''', ''arm64'', ''riscv64'']" "''amd64''"]
    by (simp add: GetArch_def)
  have b: "GetArch '''' ''amd64'' ['''', ''''] = ''amd64''"
    by (simp add: GetArch_def)
  have c: "GetArch ''s390x'' ''amd64'' [''arm64''] = ''s390x''"
    by (simp add: GetArch_def)
  from a b c show ?thesis by simp
qed

end
